theory Spec2Isabelle
  imports Complex_Main "HOL-Library.Sublist" "HOL-Library.Char_ord" "HOL-Library.List_Lexorder"
begin

section \<open>Python values shared by all modules\<close>

text \<open>
  Every function of the package is modelled as a HOL function that returns either the
  exception it raises (\<open>Inl\<close>) or the value it returns (\<open>Inr\<close>). The exceptions carry
  the message where the source builds one.
\<close>

datatype error =
    ValueError string
  | KeyError string
  | IndexError
  | TypeError
  | NameError string
  | UnboundLocalError string
  | IOError string
  | FloatingPointError
  | HDF4Error string

section \<open>argsort.py\<close>

text \<open>
  The argument of \<open>argmax\<close>, \<open>argmin\<close> and \<open>argsort\<close> is a one-dimensional
  \<open>numpy.ma.MaskedArray\<close> (each entry with its mask bit, \<open>True\<close> for a masked
  entry), a \<open>numpy.ndarray\<close> or any other Python iterable. The source tests the types in
  this order with \<open>isinstance\<close>.
\<close>

datatype 'a array_arg =
    MaskedArray "('a \<times> bool) list"
  | NdArray "'a list"
  | PyIterable "'a list"

text \<open>
  The keywords the wrappers pass on: \<open>fill_value\<close> (understood by the numpy.ma
  routines only), \<open>reverse\<close> and \<open>key\<close> (understood by \<open>sorted\<close> only;
  \<open>key_given\<close> says that the caller passed a \<open>key\<close>).
\<close>

record 'a kwargs =
  fill_value_kw :: "'a option"
  reverse :: "bool option"
  key_given :: bool

definition no_kwargs :: "'a kwargs" where
  "no_kwargs = \<lparr>fill_value_kw = None, reverse = None, key_given = False\<rparr>"

text \<open>Python's \<open>max(iterable, key=...)\<close> and \<open>min(iterable, key=...)\<close>: one pass
  that keeps the first item and replaces it only by a strictly better one.\<close>

fun max_loop :: "('a \<Rightarrow> 'k::linorder) \<Rightarrow> 'a \<Rightarrow> 'a list \<Rightarrow> 'a" where
  "max_loop key best [] = best"
| "max_loop key best (x # xs) =
     (if key x > key best then max_loop key x xs else max_loop key best xs)"

fun min_loop :: "('a \<Rightarrow> 'k::linorder) \<Rightarrow> 'a \<Rightarrow> 'a list \<Rightarrow> 'a" where
  "min_loop key best [] = best"
| "min_loop key best (x # xs) =
     (if key x < key best then min_loop key x xs else min_loop key best xs)"

definition py_max :: "('a \<Rightarrow> 'k::linorder) \<Rightarrow> 'a list \<Rightarrow> error + 'a" where
  "py_max key xs =
     (case xs of
        [] \<Rightarrow> Inl (ValueError ''max() arg is an empty sequence'')
      | x # rest \<Rightarrow> Inr (max_loop key x rest))"

definition py_min :: "('a \<Rightarrow> 'k::linorder) \<Rightarrow> 'a list \<Rightarrow> error + 'a" where
  "py_min key xs =
     (case xs of
        [] \<Rightarrow> Inl (ValueError ''min() arg is an empty sequence'')
      | x # rest \<Rightarrow> Inr (min_loop key x rest))"

text \<open>\<open>iargmax\<close> is \<open>max(enumerate(iterable), key=lambda x: x[1])[0]\<close>.\<close>

definition iargmax :: "('a::linorder) list \<Rightarrow> error + nat" where
  "iargmax iterable = map_sum id fst (py_max snd (enumerate 0 iterable))"

definition iargmin :: "('a::linorder) list \<Rightarrow> error + nat" where
  "iargmin iterable = map_sum id fst (py_min snd (enumerate 0 iterable))"

text \<open>
  The numpy routines the wrappers dispatch to, after numpy's documentation:
  \<open>MaskedArray.filled(v)\<close> replaces every masked entry by \<open>v\<close>;
  \<open>numpy.argsort\<close> returns the indices that sort the array (modelled as the stable
  sort of the indices by their entries); \<open>numpy.argmax\<close> and \<open>numpy.argmin\<close> return
  the first index of an extreme entry; the numpy.ma routines fill the array and call
  the ndarray routine. When no \<open>fill_value\<close> is given, numpy.ma takes a default
  that depends on the version and the dtype: it is the parameter \<open>dflt\<close>.
\<close>

definition filled :: "('a \<times> bool) list \<Rightarrow> 'a \<Rightarrow> 'a list" where
  "filled a v = map (\<lambda>(x, masked). if masked then v else x) a"

definition np_argsort :: "('a::linorder) list \<Rightarrow> nat list" where
  "np_argsort a = sort_key (\<lambda>i. a ! i) [0..<length a]"

definition np_ma_argsort :: "'a \<Rightarrow> (('a::linorder) \<times> bool) list \<Rightarrow> 'a option \<Rightarrow> nat list" where
  "np_ma_argsort dflt a fv =
     np_argsort (filled a (case fv of None \<Rightarrow> dflt | Some v \<Rightarrow> v))"

text \<open>\<open>sorted(range(len(seq)), key=seq.__getitem__, reverse=r)\<close>: Python's sort is
  stable, and with \<open>reverse=True\<close> equal items keep their order too.\<close>

definition py_sorted_range :: "('a::linorder) list \<Rightarrow> bool \<Rightarrow> nat list" where
  "py_sorted_range seq r =
     (if r then rev (sort_key (\<lambda>i. seq ! i) (rev [0..<length seq]))
      else sort_key (\<lambda>i. seq ! i) [0..<length seq])"

definition iargsort :: "('a::linorder) list \<Rightarrow> 'a kwargs \<Rightarrow> error + nat list" where
  "iargsort seq kw =
     (if key_given kw then Inl (KeyError ''keyword key cannot be given to argsort.'')
      else if fill_value_kw kw \<noteq> None then Inl TypeError
      else Inr (py_sorted_range seq (case reverse kw of None \<Rightarrow> False | Some r \<Rightarrow> r)))"

definition argsort :: "'a \<Rightarrow> ('a::linorder) array_arg \<Rightarrow> 'a kwargs \<Rightarrow> error + nat list" where
  "argsort dflt a kw =
     (case a of
        MaskedArray m \<Rightarrow>
          (if reverse kw \<noteq> None \<or> key_given kw then Inl TypeError
           else Inr (np_ma_argsort dflt m (fill_value_kw kw)))
      | NdArray d \<Rightarrow>
          (if reverse kw \<noteq> None \<or> key_given kw \<or> fill_value_kw kw \<noteq> None then Inl TypeError
           else Inr (np_argsort d))
      | PyIterable seq \<Rightarrow> iargsort seq kw)"

definition np_argmax :: "('a::linorder) list \<Rightarrow> error + nat" where
  "np_argmax a =
     (if a = [] then Inl (ValueError ''attempt to get argmax of an empty sequence'')
      else iargmax a)"

definition np_argmin :: "('a::linorder) list \<Rightarrow> error + nat" where
  "np_argmin a =
     (if a = [] then Inl (ValueError ''attempt to get argmin of an empty sequence'')
      else iargmin a)"

definition argmax :: "'a \<Rightarrow> ('a::linorder) array_arg \<Rightarrow> 'a kwargs \<Rightarrow> error + nat" where
  "argmax dflt a kw =
     (case a of
        MaskedArray m \<Rightarrow>
          (if reverse kw \<noteq> None \<or> key_given kw then Inl TypeError
           else np_argmax (filled m (case fill_value_kw kw of None \<Rightarrow> dflt | Some v \<Rightarrow> v)))
      | NdArray d \<Rightarrow>
          (if reverse kw \<noteq> None \<or> key_given kw \<or> fill_value_kw kw \<noteq> None then Inl TypeError
           else np_argmax d)
      | PyIterable it \<Rightarrow> iargmax it)"

definition argmin :: "'a \<Rightarrow> ('a::linorder) array_arg \<Rightarrow> 'a kwargs \<Rightarrow> error + nat" where
  "argmin dflt a kw =
     (case a of
        MaskedArray m \<Rightarrow>
          (if reverse kw \<noteq> None \<or> key_given kw then Inl TypeError
           else np_argmin (filled m (case fill_value_kw kw of None \<Rightarrow> dflt | Some v \<Rightarrow> v)))
      | NdArray d \<Rightarrow>
          (if reverse kw \<noteq> None \<or> key_given kw \<or> fill_value_kw kw \<noteq> None then Inl TypeError
           else np_argmin d)
      | PyIterable it \<Rightarrow> iargmin it)"

section \<open>division.py\<close>

text \<open>
  numpy's floating-point error settings (\<open>numpy.geterr()\<close>): one mode for each of the
  four kinds of floating-point event. They are global state: \<open>division\<close> reads them,
  changes them and writes them back.
\<close>

datatype errmode = Ignore | Warn | Raise | Call | Print | Log

record errstate =
  divide_err :: errmode
  over_err :: errmode
  under_err :: errmode
  invalid_err :: errmode

text \<open>
  The operands are real numbers: rounding, overflow, infinities and NaN are outside this
  model. An operand is a scalar (a 0-d array after \<open>np.array\<close>), a one-dimensional
  sequence or ndarray, or a one-dimensional masked array, whose masked entries are
  \<open>None\<close>.
\<close>

datatype operand =
    Scalar real
  | Arr "real list"
  | MArr "real option list"

datatype 'a nd = Nd0 'a | Nd1 "'a list"

datatype division_result = Plain "real nd" | Masked "real option nd"

text \<open>numpy's broadcasting of two arrays of dimension 0 or 1 under an elementwise
  operation: equal lengths, or one side of length 1 (or 0-d) is repeated.\<close>

definition broadcast2 :: "('a \<Rightarrow> 'b \<Rightarrow> 'c) \<Rightarrow> 'a nd \<Rightarrow> 'b nd \<Rightarrow> error + 'c nd" where
  "broadcast2 f a b =
     (case (a, b) of
        (Nd0 x, Nd0 y) \<Rightarrow> Inr (Nd0 (f x y))
      | (Nd0 x, Nd1 ys) \<Rightarrow> Inr (Nd1 (map (f x) ys))
      | (Nd1 xs, Nd0 y) \<Rightarrow> Inr (Nd1 (map (\<lambda>x. f x y) xs))
      | (Nd1 xs, Nd1 ys) \<Rightarrow>
          (if length xs = length ys then Inr (Nd1 (map2 f xs ys))
           else if length xs = 1 then Inr (Nd1 (map (f (hd xs)) ys))
           else if length ys = 1 then Inr (Nd1 (map (\<lambda>x. f x (hd ys)) xs))
           else Inl (ValueError ''operands could not be broadcast together'')))"

definition nd_map :: "('a \<Rightarrow> 'b) \<Rightarrow> 'a nd \<Rightarrow> 'b nd" where
  "nd_map f a = (case a of Nd0 x \<Rightarrow> Nd0 (f x) | Nd1 xs \<Rightarrow> Nd1 (map f xs))"

definition nd_list :: "'a nd \<Rightarrow> 'a list" where
  "nd_list a = (case a of Nd0 x \<Rightarrow> [x] | Nd1 xs \<Rightarrow> xs)"

text \<open>\<open>np.array(a)\<close> and \<open>np.ma.array(a)\<close> of an operand. In the source's plain branch
  neither operand is a masked array.\<close>

definition np_array :: "operand \<Rightarrow> real nd" where
  "np_array a =
     (case a of Scalar x \<Rightarrow> Nd0 x | Arr xs \<Rightarrow> Nd1 xs | MArr ms \<Rightarrow> Nd1 (map (\<lambda>m. case m of None \<Rightarrow> 0 | Some x \<Rightarrow> x) ms))"

definition np_ma_array :: "operand \<Rightarrow> real option nd" where
  "np_ma_array a =
     (case a of Scalar x \<Rightarrow> Nd0 (Some x) | Arr xs \<Rightarrow> Nd1 (map Some xs) | MArr ms \<Rightarrow> Nd1 ms)"

definition is_masked_array :: "operand \<Rightarrow> bool" where
  "is_masked_array a = (case a of MArr ms \<Rightarrow> True | _ \<Rightarrow> False)"

text \<open>
  \<open>np.array(a)/np.array(b)\<close>: the true division of the broadcast operands. A zero
  divided by zero is an invalid operation, which raises \<open>FloatingPointError\<close> when the
  mode of \<open>invalid\<close> is \<open>raise\<close>; a nonzero number divided by zero is a
  divide-by-zero event, which raises when the mode of \<open>divide\<close> is \<open>raise\<close>.
\<close>

definition np_divide :: "errstate \<Rightarrow> real nd \<Rightarrow> real nd \<Rightarrow> error + real nd" where
  "np_divide es a b =
     (case broadcast2 (\<lambda>x y. (x, y)) a b of
        Inl e \<Rightarrow> Inl e
      | Inr ps \<Rightarrow>
          (if invalid_err es = Raise \<and> list_ex (\<lambda>(x, y). x = 0 \<and> y = 0) (nd_list ps)
             then Inl FloatingPointError
           else if divide_err es = Raise \<and> list_ex (\<lambda>(x, y). x \<noteq> 0 \<and> y = 0) (nd_list ps)
             then Inl FloatingPointError
           else Inr (nd_map (\<lambda>(x, y). x / y) ps)))"

text \<open>\<open>np.where(cond, x, y)\<close> with a scalar \<open>y\<close>.\<close>

definition np_where :: "bool nd \<Rightarrow> real nd \<Rightarrow> real \<Rightarrow> error + real nd" where
  "np_where c x y = broadcast2 (\<lambda>t v. if t then v else y) c x"

text \<open>
  The numpy.ma counterparts. A masked quotient is masked where either operand is
  masked or the divisor is zero, and raises no floating-point error; a masked
  comparison is masked where its operand is; \<open>np.ma.where\<close> is masked where the
  condition is masked and takes the chosen entry with its mask elsewhere.
\<close>

definition ma_divide :: "real option nd \<Rightarrow> real option nd \<Rightarrow> error + real option nd" where
  "ma_divide a b =
     broadcast2 (\<lambda>x y. case (x, y) of
                          (Some u, Some v) \<Rightarrow> (if v = 0 then None else Some (u / v))
                        | _ \<Rightarrow> None) a b"

definition ma_where :: "bool option nd \<Rightarrow> real option nd \<Rightarrow> real \<Rightarrow> error + real option nd" where
  "ma_where c x y =
     broadcast2 (\<lambda>t v. case t of None \<Rightarrow> None | Some True \<Rightarrow> v | Some False \<Rightarrow> Some y) c x"

text \<open>
  \<open>division(a, b, otherwise, prec)\<close> on the global error settings \<open>es\<close>; it returns
  its result and the settings it leaves behind. The arguments of \<open>where\<close> are
  evaluated before the call, so an exception of the quotient leaves the function
  before \<open>np.seterr(**oldsettings)\<close>.
\<close>

definition division ::
  "errstate \<Rightarrow> operand \<Rightarrow> operand \<Rightarrow> real \<Rightarrow> real \<Rightarrow> (error + division_result) \<times> errstate" where
  "division es a b otherwise prec =
     (let oldsettings = es;
          es1 = es\<lparr>divide_err := Ignore\<rparr>
      in if is_masked_array a \<or> is_masked_array b then
           (case ma_divide (np_ma_array a) (np_ma_array b) of
              Inl e \<Rightarrow> (Inl e, es1)
            | Inr q \<Rightarrow>
                (case ma_where (nd_map (map_option (\<lambda>y. \<bar>y\<bar> > \<bar>prec\<bar>)) (np_ma_array b)) q otherwise of
                   Inl e \<Rightarrow> (Inl e, es1)
                 | Inr out \<Rightarrow> (Inr (Masked out), oldsettings)))
         else
           (case np_divide es1 (np_array a) (np_array b) of
              Inl e \<Rightarrow> (Inl e, es1)
            | Inr q \<Rightarrow>
                (case np_where (nd_map (\<lambda>y. \<bar>y\<bar> > \<bar>prec\<bar>) (np_array b)) q otherwise of
                   Inl e \<Rightarrow> (Inl e, es1)
                 | Inr out \<Rightarrow> (Inr (Plain out), oldsettings))))"

text \<open>numpy's settings when nothing has changed them.\<close>

definition np_default_err :: errstate where
  "np_default_err = \<lparr>divide_err = Warn, over_err = Warn, under_err = Ignore, invalid_err = Warn\<rparr>"

text \<open>A sequence of calls of \<open>division\<close>, each on the settings the one before left.\<close>

fun division_calls :: "errstate \<Rightarrow> (operand \<times> operand \<times> real \<times> real) list \<Rightarrow> errstate" where
  "division_calls es [] = es"
| "division_calls es ((a, b, otherwise, prec) # cs) =
     division_calls (snd (division es a b otherwise prec)) cs"


section \<open>readhdf5.py and readhdf4.py\<close>

text \<open>
  A container file holds file attributes and named datasets, each with its data (\<open>None\<close>
  when reading the data fails) and its attributes. Dictionaries are association lists in
  the order of their keys. The file system maps a file name to the container it holds;
  a name it does not map cannot be opened.
\<close>

record ('d, 'v) container =
  fileattrs :: "(string \<times> 'v) list"
  datasets :: "(string \<times> 'd option \<times> (string \<times> 'v) list) list"

datatype ('d, 'v) hdf_result =
    Attributes "(string \<times> 'v) list"
  | Variables "string list"
  | Data 'd
  | SqueezedData 'd

datatype handle = NotOpened | Opened | Closed

text \<open>
  A name of the source is looked up among the names bound where it stands: the
  parameters and locals of the function, the names of the module and the builtins.
  A name that is bound nowhere raises \<open>NameError\<close>. \<open>str_names\<close> are the names of
  \<open>readhdf5\<close> and \<open>readhdf4\<close> that hold strings, with their values.
\<close>

definition str_names :: "string \<Rightarrow> string \<Rightarrow> (string \<times> string) list" where
  "str_names fName var = [(''fName'', fName), (''var'', var)]"

definition lookup_name :: "(string \<times> 'a) list \<Rightarrow> string \<Rightarrow> error + 'a" where
  "lookup_name env n = (case map_of env n of None \<Rightarrow> Inl (NameError n) | Some v \<Rightarrow> Inr v)"

text \<open>\<open>raise ValueError(pre+var+' not in file '+fname)\<close>: the message is evaluated
  first, and its names are looked up.\<close>

definition raise_not_in_file :: "string \<Rightarrow> string \<Rightarrow> string \<Rightarrow> error" where
  "raise_not_in_file pre fName var =
     (case lookup_name (str_names fName var) ''var'' of
        Inl e \<Rightarrow> e
      | Inr v \<Rightarrow>
          (case lookup_name (str_names fName var) ''fname'' of
             Inl e \<Rightarrow> e
           | Inr fn \<Rightarrow> ValueError (pre @ v @ '' not in file '' @ fn)))"

definition raise_cannot_read :: "string \<Rightarrow> string \<Rightarrow> error" where
  "raise_cannot_read fName var =
     (case lookup_name (str_names fName var) ''var'' of
        Inl e \<Rightarrow> e
      | Inr v \<Rightarrow>
          (case lookup_name (str_names fName var) ''fname'' of
             Inl e \<Rightarrow> e
           | Inr fn \<Rightarrow> IOError (''Cannot read variable '' @ v @ '' in file '' @ fn)))"

record hdf_args =
  var :: string
  reform_hdf :: bool
  squeeze_hdf :: bool
  variables :: bool
  attributes :: bool
  fileattributes :: bool
  sort_opt :: bool

definition hdf_defaults :: hdf_args where
  "hdf_defaults = \<lparr>var = [], reform_hdf = False, squeeze_hdf = False, variables = False,
     attributes = False, fileattributes = False, sort_opt = False\<rparr>"

definition readhdf5 ::
  "(string \<rightharpoonup> ('d, 'v) container) \<Rightarrow> string \<Rightarrow> hdf_args \<Rightarrow> (error + ('d, 'v) hdf_result) \<times> handle" where
  "readhdf5 fs fName args =
     (case fs fName of
        None \<Rightarrow> (Inl (IOError (''Cannot open file: '' @ fName)), NotOpened)
      | Some f \<Rightarrow>
          if fileattributes args then (Inr (Attributes (fileattrs f)), Closed)
          else
            let vars = map fst (datasets f) in
            if variables args then
              (Inr (Variables (if sort_opt args then sort vars else vars)), Closed)
            else if attributes args then
              (if var args \<notin> set vars
                 then (Inl (raise_not_in_file ''variable '' fName (var args)), Closed)
               else (case map_of (datasets f) (var args) of
                       None \<Rightarrow> (Inl (KeyError (var args)), Opened)
                     | Some (d, ats) \<Rightarrow> (Inr (Attributes ats), Closed)))
            else if var args = [] then
              (Inl (ValueError ''Variable name has to be given.''), Closed)
            else if var args \<notin> set vars
              then (Inl (raise_not_in_file ''variable '' fName (var args)), Closed)
            else (case map_of (datasets f) (var args) of
                    None \<Rightarrow> (Inl (KeyError (var args)), Opened)
                  | Some (None, ats) \<Rightarrow> (Inl (raise_cannot_read fName (var args)), Closed)
                  | Some (Some arr, ats) \<Rightarrow>
                      (if reform_hdf args \<or> squeeze_hdf args then (Inr (SqueezedData arr), Closed)
                       else (Inr (Data arr), Closed))))"

text \<open>
  \<open>readhdf4\<close> imports \<open>SD\<close> from \<open>pyhdf.SD\<close> inside the function; \<open>pyhdf\<close> says
  whether the library is installed. \<open>readhdf4_names\<close> are the names bound in the
  function and its module (apart from the builtins): the exception classes named in
  \<open>raise Error(...)\<close> and \<open>except HDF4Error:\<close> are looked up among them and among the
  builtins when the statement is reached.
\<close>

definition readhdf4_names :: "string list" where
  "readhdf4_names =
     [''division'', ''absolute_import'', ''print_function'', ''np'', ''readhdf4'', ''hdf4read'',
      ''SD'', ''fName'', ''var'', ''reform'', ''squeeze'', ''variables'', ''attributes'',
      ''fileattributes'', ''sort'']"

definition builtin_exceptions :: "string list" where
  "builtin_exceptions =
     [''Exception'', ''IOError'', ''OSError'', ''ValueError'', ''KeyError'', ''IndexError'',
      ''TypeError'', ''NameError'', ''ImportError'']"

definition bound_class :: "string \<Rightarrow> bool" where
  "bound_class n = (n \<in> set readhdf4_names \<or> n \<in> set builtin_exceptions)"

definition readhdf4 ::
  "bool \<Rightarrow> (string \<rightharpoonup> ('d, 'v) container) \<Rightarrow> string \<Rightarrow> hdf_args \<Rightarrow> (error + ('d, 'v) hdf_result) \<times> handle" where
  "readhdf4 pyhdf fs fName args =
     (if \<not> pyhdf then
        (if bound_class ''Error''
           then (Inl (ValueError ''No HDF4 support available, i.e. pyhdf''), NotOpened)
         else (Inl (NameError ''Error''), NotOpened))
      else
        (case fs fName of
           None \<Rightarrow>
             (if bound_class ''HDF4Error''
                then (Inl (IOError (''Cannot open file: '' @ fName)), NotOpened)
              else (Inl (NameError ''HDF4Error''), NotOpened))
         | Some f \<Rightarrow>
             if fileattributes args then (Inr (Attributes (fileattrs f)), Closed)
             else
               let svars = map fst (datasets f) in
               if variables args then
                 (Inr (Variables (if sort_opt args then sort svars else svars)), Closed)
               else if attributes args then
                 (if var args \<notin> set svars
                    then (Inl (raise_not_in_file ''Variable '' fName (var args)), Closed)
                  else (case map_of (datasets f) (var args) of
                          None \<Rightarrow> (Inl (KeyError (var args)), Opened)
                        | Some (d, ats) \<Rightarrow> (Inr (Attributes ats), Closed)))
               else if var args = [] then
                 (Inl (ValueError ''Variable name has to be given.''), Closed)
               else if var args \<notin> set svars
                 then (Inl (raise_not_in_file ''Variable '' fName (var args)), Closed)
               else (case map_of (datasets f) (var args) of
                       None \<Rightarrow> (Inl (KeyError (var args)), Opened)
                     | Some (None, ats) \<Rightarrow> (Inl (HDF4Error ''cannot read the dataset''), Opened)
                     | Some (Some arr, ats) \<Rightarrow>
                         (if reform_hdf args \<or> squeeze_hdf args then (Inr (SqueezedData arr), Closed)
                          else (Inr (Data arr), Closed)))))"

section \<open>sread.py\<close>

subsection \<open>Strings\<close>

text \<open>
  The file is decoded to text before \<open>sread\<close> sees it (\<open>encoding\<close> and \<open>errors\<close>
  belong to the decoder); the default encoding is ASCII, and a character is whitespace
  as \<open>str.isspace\<close> says of the ASCII characters.
\<close>

definition is_space :: "char \<Rightarrow> bool" where
  "is_space c = (of_char c \<in> set [9, 10, 11, 12, 13, 28, 29, 30, 31, 32 :: nat])"

definition rstrip :: "string \<Rightarrow> string" where
  "rstrip s = rev (dropWhile is_space (rev s))"

text \<open>\<open>s.strip()\<close> and \<open>s.strip(chars)\<close>.\<close>

definition strip_ws :: "string \<Rightarrow> string" where
  "strip_ws s = dropWhile is_space (rstrip s)"

definition strip_chars :: "string \<Rightarrow> string \<Rightarrow> string" where
  "strip_chars chars s =
     dropWhile (\<lambda>c. c \<in> set chars) (rev (dropWhile (\<lambda>c. c \<in> set chars) (rev s)))"

text \<open>\<open>s.split(sep)\<close> for a non-empty \<open>sep\<close>: the string is cut at every occurrence
  of \<open>sep\<close>, found from the left; \<open>cur\<close> is the field being read.\<close>

function split_go :: "string \<Rightarrow> string \<Rightarrow> string \<Rightarrow> string list" where
  "split_go sep cur [] = [cur]"
| "split_go sep cur (c # cs) =
     (if sep \<noteq> [] \<and> prefix sep (c # cs)
        then cur # split_go sep [] (drop (length sep - 1) cs)
      else split_go sep (cur @ [c]) cs)"
  by pat_completeness auto
termination
  by (relation "measure (\<lambda>(sep, cur, s). length s)") auto

text \<open>\<open>s.split(None)\<close>: the string is cut at every run of whitespace, and no field
  is empty.\<close>

fun ws_go :: "string \<Rightarrow> string \<Rightarrow> string list" where
  "ws_go cur [] = (if cur = [] then [] else [cur])"
| "ws_go cur (c # cs) =
     (if is_space c then (if cur = [] then ws_go [] cs else cur # ws_go [] cs)
      else ws_go (cur @ [c]) cs)"

definition py_split :: "string option \<Rightarrow> string \<Rightarrow> error + string list" where
  "py_split sep s =
     (case sep of
        None \<Rightarrow> Inr (ws_go [] s)
      | Some d \<Rightarrow> (if d = [] then Inl (ValueError ''empty separator'') else Inr (split_go d [] s)))"

text \<open>\<open>xs[i]\<close> for a Python integer \<open>i\<close>: a negative index counts from the end.\<close>

definition py_getitem :: "'a list \<Rightarrow> int \<Rightarrow> error + 'a" where
  "py_getitem xs i =
     (let n = int (length xs); j = (if i < 0 then n + i else i)
      in if 0 \<le> j \<and> j < n then Inr (xs ! nat j) else Inl IndexError)"

text \<open>A list comprehension whose items may raise: the first exception ends it.\<close>

fun collect :: "(error + 'a) list \<Rightarrow> error + 'a list" where
  "collect [] = Inr []"
| "collect (x # xs) =
     (case x of
        Inl e \<Rightarrow> Inl e
      | Inr v \<Rightarrow> (case collect xs of Inl e \<Rightarrow> Inl e | Inr vs \<Rightarrow> Inr (v # vs)))"

subsection \<open>Arguments and results\<close>

datatype nc_arg = NcInt int | NcSeq "int list"

datatype cname_arg = CnameStr string | CnameSeq "string list"

text \<open>\<open>comment\<close> is a string, whose characters start a comment line, or a sequence of
  strings.\<close>

datatype comment_arg = CommentStr string | CommentSeq "string list"

record sread_args =
  nc :: nc_arg
  cname :: "cname_arg option"
  skip :: int
  cskip :: int
  hskip :: int
  hstrip :: bool
  separator :: "string option"
  squeeze :: bool
  reform :: bool
  skip_blank :: bool
  comment :: "comment_arg option"
  fill :: bool
  fill_value :: string
  strip :: "string option"
  header :: bool
  full_header :: bool
  transpose_opt :: bool
  strarr :: bool

definition sread_defaults :: sread_args where
  "sread_defaults =
     \<lparr>nc = NcInt 0, cname = None, skip = 0, cskip = 0, hskip = 0, hstrip = True,
      separator = None, squeeze = False, reform = False, skip_blank = False,
      comment = None, fill = False, fill_value = [], strip = None, header = False,
      full_header = False, transpose_opt = False, strarr = False\<rparr>"

text \<open>The values \<open>sread\<close> returns: \<open>None\<close>, a string, a list, or a numpy array of
  strings (written as the nested list \<open>tolist()\<close> gives).\<close>

datatype pyval = PNone | PStr string | PList "pyval list" | NdArr pyval

definition rows_val :: "string list list \<Rightarrow> pyval" where
  "rows_val rows = PList (map (\<lambda>r. PList (map PStr r)) rows)"

subsection \<open>Reading lines\<close>

text \<open>An open file is the list of the lines not yet read. \<open>f.readline()\<close> returns the
  next line, and the empty string at the end of the file.\<close>

definition readline :: "string list \<Rightarrow> string \<times> string list" where
  "readline f = (case f of [] \<Rightarrow> ([], []) | l # rest \<Rightarrow> (l, rest))"

text \<open>\<open>s[0] in comment\<close>, for a non-empty \<open>s\<close>.\<close>

definition in_comment :: "comment_arg option \<Rightarrow> string \<Rightarrow> bool" where
  "in_comment c s =
     (case c of
        None \<Rightarrow> False
      | Some (CommentStr cs) \<Rightarrow> hd s \<in> set cs
      | Some (CommentSeq seqs) \<Rightarrow> [hd s] \<in> set seqs)"

text \<open>
  The loop that reads the first line of data (\<open>while True\<close>): it leaves with the line
  \<open>s\<close> at a line that is neither blank nor a comment, or at a blank line when
  \<open>skip_blank\<close> is off. At the end of the file \<open>readline\<close> returns the empty string
  again and again, so the loop may not end: the result \<open>None\<close> is a call that never
  returns.
\<close>

partial_function (option) first_line ::
  "bool \<Rightarrow> comment_arg option \<Rightarrow> string list \<Rightarrow> (string \<times> string list) option" where
  "first_line sb c f =
     (case readline f of
        (l, f') \<Rightarrow>
          (let s = rstrip l in
           if length s = 0 then (if sb then first_line sb c f' else Some (s, f'))
           else if in_comment c s then first_line sb c f'
           else Some (s, f')))"

declare first_line.simps [code]

text \<open>The lines skipped at the start and the header lines: \<open>head\<close> is bound only when
  \<open>skip > 0\<close>.\<close>

definition skip_lines :: "int \<Rightarrow> string list \<Rightarrow> string list" where
  "skip_lines hs f = (if hs > 0 then drop (nat hs) f else f)"

definition read_head :: "int \<Rightarrow> int \<Rightarrow> string list \<Rightarrow> string list option \<times> string list" where
  "read_head sk hs f =
     (if sk > 0 then
        (let n = nat (sk - hs)
         in (Some (map rstrip (take n f) @ replicate (n - length f) []), drop n f))
      else (None, f))"

text \<open>The separator, when none is given: comma, then semicolon, then whitespace.\<close>

definition sniff :: "string option \<Rightarrow> string \<Rightarrow> error + (string option \<times> string list)" where
  "sniff sepa s =
     (case sepa of
        None \<Rightarrow>
          (let res = split_go '','' [] s in
           if length res = 1 then
             (let res2 = split_go '';'' [] s in
              if length res2 = 1 then Inr (None, ws_go [] s) else Inr (Some '';'', res2))
           else Inr (Some '','', res))
      | Some d \<Rightarrow> (case py_split (Some d) s of Inl e \<Rightarrow> Inl e | Inr res \<Rightarrow> Inr (Some d, res)))"

subsection \<open>Choosing the columns\<close>

text \<open>\<open>range(a, b)\<close> as a list of integers.\<close>

definition py_range :: "int \<Rightarrow> int \<Rightarrow> int list" where
  "py_range a b = [a..b - 1]"

definition cname_list :: "cname_arg \<Rightarrow> string list" where
  "cname_list cn = (case cn of CnameStr n \<Rightarrow> [n] | CnameSeq ns \<Rightarrow> ns)"

text \<open>
  The indices \<open>iinc\<close> of the columns to read (lines 340 to 367 of the source), from
  \<open>cname\<close> and the first header line or from \<open>nc\<close> and \<open>cskip\<close>. An exception
  comes with the state of the file handle: the source closes the file before the two
  exceptions it raises itself.
\<close>

definition column_indices ::
  "sread_args \<Rightarrow> string list option \<Rightarrow> string option \<Rightarrow> nat \<Rightarrow> (error \<times> handle) + int list" where
  "column_indices args head sep nres =
     (if nc args \<noteq> NcInt 0 \<and> cname args \<noteq> None then
        Inl (ValueError ''nc and cname are mutually exclusive.'', Closed)
      else
        (case cname args of
           Some cn \<Rightarrow>
             (if skip args - hskip args \<le> 0 then
                Inl (IOError ''No header line left for choosing columns by name.'', Closed)
              else
                (let cnames = (if hstrip args then map strip_ws (cname_list cn) else cname_list cn)
                 in case head of
                      None \<Rightarrow> Inl (UnboundLocalError ''head'', Opened)
                    | Some hd_lines \<Rightarrow>
                        (case py_getitem hd_lines 0 of
                           Inl e \<Rightarrow> Inl (e, Opened)
                         | Inr h0 \<Rightarrow>
                             (case py_split sep h0 of
                                Inl e \<Rightarrow> Inl (e, Opened)
                              | Inr hres0 \<Rightarrow>
                                  (let hres = (if hstrip args then map strip_ws hres0 else hres0)
                                   in Inr (map int (filter (\<lambda>k. hres ! k \<in> set cnames)
                                                      [0..<length hres])))))))
         | None \<Rightarrow>
             (case nc args of
                NcSeq ns \<Rightarrow> Inr ns
              | NcInt n \<Rightarrow>
                  (if n \<le> 0 then Inr (py_range (cskip args) (int nres))
                   else Inr (py_range (cskip args) (cskip args + n))))))"

text \<open>\<open>miinc = max(iinc)\<close> raises \<open>ValueError\<close> on an empty sequence.\<close>

definition max_index :: "int list \<Rightarrow> error + int" where
  "max_index iinc =
     (case iinc of
        [] \<Rightarrow> Inl (ValueError ''max() arg is an empty sequence'')
      | i # rest \<Rightarrow> Inr (fold max rest i))"

subsection \<open>One line\<close>

text \<open>The three cases of \<open>strip\<close> in \<open>line2var\<close>: \<open>None\<close> strips double and then
  single quotes, a false value (the empty string) strips nothing.\<close>

definition strip_cell :: "string option \<Rightarrow> string \<Rightarrow> string" where
  "strip_cell st cell =
     (case st of
        None \<Rightarrow> strip_chars [CHR 0x27] (strip_chars [CHR 0x22] cell)
      | Some chars \<Rightarrow> (if chars = [] then cell else strip_chars chars cell))"

text \<open>\<open>line2var\<close> appends one row to \<open>var\<close>; the model returns the row. The entries of
  the columns the line has come first, and one empty string for each column it lacks
  follows.\<close>

definition line2var :: "string list \<Rightarrow> int list \<Rightarrow> string option \<Rightarrow> error + string list" where
  "line2var res iinc st =
     (let nres = int (length res) in
      case collect (map (\<lambda>i. map_sum id (strip_cell st) (py_getitem res i))
                        (filter (\<lambda>i. i < nres) iinc)) of
        Inl e \<Rightarrow> Inl e
      | Inr tmp \<Rightarrow>
          (let rest = length (filter (\<lambda>i. i \<ge> nres) iinc)
           in Inr (tmp @ replicate rest [])))"

text \<open>The check and the call that the source repeats for every line it splits:
  a line too short for the largest index raises unless \<open>fill\<close> is on, and the file is
  closed first.\<close>

definition not_enough :: "string \<Rightarrow> error" where
  "not_enough s = ValueError (''Line has not enough columns to index: '' @ s)"

definition add_line ::
  "sread_args \<Rightarrow> int list \<Rightarrow> int \<Rightarrow> string \<Rightarrow> string list \<Rightarrow> (error \<times> handle) + string list" where
  "add_line args iinc miinc s res =
     (if miinc \<ge> int (length res) \<and> \<not> fill args then Inl (not_enough s, Closed)
      else (case line2var res iinc (strip args) of
              Inl e \<Rightarrow> Inl (e, Opened)
            | Inr row \<Rightarrow> Inr row))"

subsection \<open>The rest of the file\<close>

text \<open>The loop \<open>for line in f\<close> (lines 413 to 427): \<open>acc\<close> holds the rows read so
  far (the list \<open>var\<close> of the source).\<close>

fun read_rest ::
  "sread_args \<Rightarrow> string option \<Rightarrow> int list \<Rightarrow> int \<Rightarrow> string list \<Rightarrow> string list list
     \<Rightarrow> (error \<times> handle) + string list list" where
  "read_rest args sep iinc miinc [] acc = Inr acc"
| "read_rest args sep iinc miinc (line # f) acc =
     (let s = rstrip line in
      if length s = 0 then
        (if skip_blank args then read_rest args sep iinc miinc f acc else Inr acc)
      else if in_comment (comment args) s then read_rest args sep iinc miinc f acc
      else
        (case py_split sep s of
           Inl e \<Rightarrow> Inl (e, Opened)
         | Inr res \<Rightarrow>
             (case add_line args iinc miinc s res of
                Inl e \<Rightarrow> Inl e
              | Inr row \<Rightarrow> read_rest args sep iinc miinc f (acc @ [row]))))"

subsection \<open>The header lines\<close>

text \<open>The loop over the header lines (lines 380 to 387).\<close>

fun split_header ::
  "sread_args \<Rightarrow> string option \<Rightarrow> int list \<Rightarrow> int \<Rightarrow> string list \<Rightarrow> string list list
     \<Rightarrow> (error \<times> handle) + string list list" where
  "split_header args sep iinc miinc [] acc = Inr acc"
| "split_header args sep iinc miinc (h # hs) acc =
     (case py_split sep h of
        Inl e \<Rightarrow> Inl (e, Opened)
      | Inr hres \<Rightarrow>
          (case add_line args iinc miinc h hres of
             Inl e \<Rightarrow> Inl e
           | Inr row \<Rightarrow> split_header args sep iinc miinc hs (acc @ [row])))"

definition header_var ::
  "sread_args \<Rightarrow> string list option \<Rightarrow> string option \<Rightarrow> int list \<Rightarrow> int \<Rightarrow> (error \<times> handle) + pyval" where
  "header_var args head sep iinc miinc =
     (if skip args - hskip args > 0 then
        (case head of
           None \<Rightarrow> Inl (UnboundLocalError ''head'', Opened)
         | Some hd_lines \<Rightarrow>
             (if full_header args then Inr (PList (map PStr hd_lines))
              else
                (case split_header args sep iinc miinc hd_lines [] of
                   Inl e \<Rightarrow> Inl e
                 | Inr acc \<Rightarrow>
                     (if skip args - hskip args = 1 then
                        (case acc of
                           [] \<Rightarrow> Inl (IndexError, Opened)
                         | v0 # vs \<Rightarrow> Inr (PList (map PStr v0)))
                      else Inr (rows_val acc)))))
      else Inr PNone)"

subsection \<open>Shaping the result\<close>

text \<open>Iterating over a value, its length and its first item, as Python gives them:
  a string is the sequence of its characters, and \<open>None\<close> raises \<open>TypeError\<close>.\<close>

definition py_iter :: "pyval \<Rightarrow> error + pyval list" where
  "py_iter v =
     (case v of
        PNone \<Rightarrow> Inl TypeError
      | PStr s \<Rightarrow> Inr (map (\<lambda>c. PStr [c]) s)
      | PList xs \<Rightarrow> Inr xs
      | NdArr a \<Rightarrow> Inl TypeError)"

definition py_len :: "pyval \<Rightarrow> error + nat" where
  "py_len v = map_sum id length (py_iter v)"

definition py_first :: "pyval \<Rightarrow> error + pyval" where
  "py_first v =
     (case py_iter v of
        Inl e \<Rightarrow> Inl e
      | Inr [] \<Rightarrow> Inl IndexError
      | Inr (x # xs) \<Rightarrow> Inr x)"

definition is_list :: "pyval \<Rightarrow> bool" where
  "is_list v = (case v of PList xs \<Rightarrow> True | _ \<Rightarrow> False)"

text \<open>\<open>[[fill_value if i=='' else i for i in row] for row in var]\<close>.\<close>

definition fill_rows :: "string \<Rightarrow> pyval \<Rightarrow> error + pyval" where
  "fill_rows fv v =
     (case py_iter v of
        Inl e \<Rightarrow> Inl e
      | Inr rows \<Rightarrow>
          map_sum id PList
            (collect (map (\<lambda>row. map_sum id
                                   (\<lambda>items. PList (map (\<lambda>i. if i = PStr [] then PStr fv else i) items))
                                   (py_iter row)) rows)))"

text \<open>\<open>maxi = max([len(i) for i in var]); if maxi==1: var = [i[0] for i in var]\<close>.\<close>

definition squeeze_rows :: "pyval \<Rightarrow> error + pyval" where
  "squeeze_rows v =
     (case py_iter v of
        Inl e \<Rightarrow> Inl e
      | Inr rows \<Rightarrow>
          (case collect (map py_len rows) of
             Inl e \<Rightarrow> Inl e
           | Inr [] \<Rightarrow> Inl (ValueError ''max() arg is an empty sequence'')
           | Inr (n # ns) \<Rightarrow>
               (if fold max ns n = 1 then map_sum id PList (collect (map py_first rows))
                else Inr v)))"

text \<open>\<open>[list(i) for i in zip(*var)]\<close>: \<open>zip\<close> stops at the shortest row.\<close>

definition zip_star :: "'a list list \<Rightarrow> 'a list list" where
  "zip_star rows =
     (case rows of
        [] \<Rightarrow> []
      | r # rs \<Rightarrow> map (\<lambda>j. map (\<lambda>row. row ! j) rows) [0..<fold min (map length rs) (length r)])"

definition transpose_rows :: "pyval \<Rightarrow> error + pyval" where
  "transpose_rows v =
     (case py_first v of
        Inl e \<Rightarrow> Inl e
      | Inr v0 \<Rightarrow>
          (if is_list v0 then
             (case py_iter v of
                Inl e \<Rightarrow> Inl e
              | Inr rows \<Rightarrow>
                  (case collect (map py_iter rows) of
                     Inl e \<Rightarrow> Inl e
                   | Inr rs \<Rightarrow> Inr (PList (map PList (zip_star rs)))))
           else Inr v))"

text \<open>
  The numpy array of strings of \<open>strarr=True\<close>, as nested lists: \<open>np.array(None)\<close> is
  the 0-d array of the string \<open>None\<close>; \<open>.T\<close> transposes a two-dimensional array;
  \<open>squeeze\<close> drops the axes of length one; \<open>np.where(var=='', fill_value, var)\<close>
  replaces the empty strings.
\<close>

definition items :: "pyval \<Rightarrow> pyval list" where
  "items v = (case v of PList xs \<Rightarrow> xs | _ \<Rightarrow> [])"

definition is_2d :: "pyval \<Rightarrow> bool" where
  "is_2d v = (case v of PList (PList r # rs) \<Rightarrow> True | _ \<Rightarrow> False)"

definition np_str_array :: "pyval \<Rightarrow> pyval" where
  "np_str_array v = (case v of PNone \<Rightarrow> PStr ''None'' | _ \<Rightarrow> v)"

definition arr_T :: "pyval \<Rightarrow> pyval" where
  "arr_T v = (if is_2d v then PList (map PList (zip_star (map items (items v)))) else v)"

definition squeeze1 :: "pyval \<Rightarrow> pyval" where
  "squeeze1 v = (case v of PList [x] \<Rightarrow> x | _ \<Rightarrow> v)"

definition arr_squeeze :: "pyval \<Rightarrow> pyval" where
  "arr_squeeze v =
     (if is_2d v then squeeze1 (PList (map squeeze1 (items v))) else squeeze1 v)"

fun arr_where :: "string \<Rightarrow> pyval \<Rightarrow> pyval" where
  "arr_where fv PNone = PNone"
| "arr_where fv (PStr s) = (if s = [] then PStr fv else PStr s)"
| "arr_where fv (PList xs) = PList (map (arr_where fv) xs)"
| "arr_where fv (NdArr a) = NdArr (arr_where fv a)"

text \<open>The block that ends both the header branch (lines 390 to 403) and the data
  branch (lines 429 to 443); the file is closed before it.\<close>

definition finish :: "sread_args \<Rightarrow> pyval \<Rightarrow> error + pyval" where
  "finish args v =
     (if strarr args then
        (let a1 = np_str_array v;
             a2 = (if transpose_opt args then arr_T a1 else a1);
             a3 = (if squeeze args \<or> reform args then arr_squeeze a2 else a2);
             a4 = (if fill args then arr_where (fill_value args) a3 else a3)
         in Inr (NdArr a4))
      else
        (case (if fill args then fill_rows (fill_value args) v else Inr v) of
           Inl e \<Rightarrow> Inl e
         | Inr v1 \<Rightarrow>
             (case (if squeeze args \<or> reform args then squeeze_rows v1 else Inr v1) of
                Inl e \<Rightarrow> Inl e
              | Inr v2 \<Rightarrow> (if transpose_opt args then transpose_rows v2 else Inr v2))))"

subsection \<open>sread\<close>

text \<open>What \<open>sread\<close> does once the first line \<open>s\<close> of data is read: the separator,
  the columns, then the header or the data. \<open>f\<close> holds the lines after \<open>s\<close>.\<close>

definition sread_body ::
  "sread_args \<Rightarrow> string list option \<Rightarrow> string \<Rightarrow> string list \<Rightarrow> (error + pyval) \<times> handle" where
  "sread_body args head s f =
     (case sniff (separator args) s of
        Inl e \<Rightarrow> (Inl e, Opened)
      | Inr (sep, res) \<Rightarrow>
          (case column_indices args head sep (length res) of
             Inl (e, h) \<Rightarrow> (Inl e, h)
           | Inr iinc \<Rightarrow>
               (case max_index iinc of
                  Inl e \<Rightarrow> (Inl e, Opened)
                | Inr miinc \<Rightarrow>
                    if header args then
                      (case header_var args head sep iinc miinc of
                         Inl (e, h) \<Rightarrow> (Inl e, h)
                       | Inr v \<Rightarrow> (finish args v, Closed))
                    else
                      (case add_line args iinc miinc s res of
                         Inl (e, h) \<Rightarrow> (Inl e, h)
                       | Inr row \<Rightarrow>
                           (case read_rest args sep iinc miinc f [row] of
                              Inl (e, h) \<Rightarrow> (Inl e, h)
                            | Inr acc \<Rightarrow> (finish args (rows_val acc), Closed))))))"

text \<open>
  \<open>sread\<close> on the file \<open>infile\<close>: \<open>None\<close> is a file that cannot be opened, and
  \<open>Some f\<close> a file with the lines \<open>f\<close>. The result \<open>None\<close> is a call that never
  returns; otherwise it is the exception or the value, and the state of the file handle
  when the call ends.
\<close>

definition sread :: "sread_args \<Rightarrow> string list option \<Rightarrow> ((error + pyval) \<times> handle) option" where
  "sread args infile =
     (case infile of
        None \<Rightarrow> Some (Inl (IOError ''cannot open the file''), NotOpened)
      | Some f0 \<Rightarrow>
          (case read_head (skip args) (hskip args) (skip_lines (hskip args) f0) of
             (head, f2) \<Rightarrow>
               (case first_line (skip_blank args) (comment args) f2 of
                  None \<Rightarrow> None
                | Some (s, f3) \<Rightarrow> Some (sread_body args head s f3))))"




subsection \<open>Notions for the properties of sread\<close>

text \<open>The columns of a line under the separator \<open>sep\<close> (\<open>s.split(sep)\<close> without
  its exception), the row \<open>line2var\<close> makes of them when no index is negative, and the
  number of chosen columns that a line lacks.\<close>

definition cells :: "string option \<Rightarrow> string \<Rightarrow> string list" where
  "cells sep s = (case sep of None \<Rightarrow> ws_go [] s | Some d \<Rightarrow> split_go d [] s)"


definition missing :: "string option \<Rightarrow> int list \<Rightarrow> string \<Rightarrow> nat" where
  "missing sep iinc l = length (filter (\<lambda>i. i \<ge> int (length (cells sep l))) iinc)"


section \<open>Properties of division\<close>






lemma division_keeps_invalid:
  "invalid_err (snd (division es a b x p)) = invalid_err es"
  by (simp add: division_def Let_def split: sum.splits)

lemma division_calls_keeps_invalid:
  "invalid_err (division_calls es cs) = invalid_err es"
  by (induction cs arbitrary: es) (auto simp: division_keeps_invalid)

lemma np_divide_cong:
  "invalid_err es = invalid_err es' \<Longrightarrow>
   np_divide (es\<lparr>divide_err := Ignore\<rparr>) u v = np_divide (es'\<lparr>divide_err := Ignore\<rparr>) u v"
  by (simp add: np_divide_def split: sum.splits)

lemma division_result_cong:
  assumes "invalid_err es = invalid_err es'"
  shows "fst (division es a b x p) = fst (division es' a b x p)"
  using np_divide_cong[OF assms]
  by (simp add: division_def Let_def split: sum.splits)

lemma division_restores:
  "fst (division es a b x p) = Inr r \<Longrightarrow> snd (division es a b x p) = es"
  by (auto simp: division_def Let_def split: sum.splits if_splits)

text \<open>
  Claim C9: when \<open>division\<close> returns, numpy's error settings are what they were before
  the call; and a call returns the same result whatever calls of \<open>division\<close> came
  before it.
\<close>

theorem division_stateless:
  "(fst (division es a b x p) = Inr r \<longrightarrow> snd (division es a b x p) = es) \<and>
   fst (division (division_calls es cs) a b x p) = fst (division es a b x p)"
  using division_restores division_result_cong[OF division_calls_keeps_invalid] by blast

theorem division_stateless_witness:
  "fst (division np_default_err (Arr [1, 1, 1]) (Arr [2, 1, 0]) 0 0) = Inr (Plain (Nd1 [1 / 2, 1, 0])) \<and>
   snd (division np_default_err (Arr [1, 1, 1]) (Arr [2, 1, 0]) 0 0) = np_default_err \<and>
   fst (division (division_calls np_default_err [(Arr [1, 2], Arr [0, 0, 0], 0, 0)])
          (Arr [1, 1, 1]) (Arr [2, 1, 0]) 0 0) = Inr (Plain (Nd1 [1 / 2, 1, 0]))"
proof -
  have v: "fst (division np_default_err (Arr [1, 1, 1]) (Arr [2, 1, 0]) 0 0) = Inr (Plain (Nd1 [1 / 2, 1, 0]))"
    by (simp add: division_def is_masked_array_def np_array_def nd_map_def np_divide_def
      broadcast2_def nd_list_def np_where_def np_default_err_def)
  from division_stateless[of np_default_err "Arr [1, 1, 1]" "Arr [2, 1, 0]" 0 0
      "Plain (Nd1 [1 / 2, 1, 0])" "[(Arr [1, 2], Arr [0, 0, 0], 0, 0)]"] v
  show ?thesis by simp
qed

text \<open>A call that raises leaves \<open>divide\<close> at \<open>ignore\<close>: the settings are restored
  only on the way to \<open>return\<close>.\<close>

lemma division_leaks_on_raise:
  "division np_default_err (Arr [1, 2]) (Arr [0, 0, 0]) 0 0 =
     (Inl (ValueError ''operands could not be broadcast together''), np_default_err\<lparr>divide_err := Ignore\<rparr>)"
  by (simp add: division_def is_masked_array_def np_array_def nd_map_def np_divide_def
      broadcast2_def nd_list_def np_where_def np_default_err_def)


section \<open>Properties of argmax, argmin and argsort\<close>

lemma max_loop_enum:
  "max_loop snd (k, b) (enumerate n xs) = (i, v) \<Longrightarrow> k < n \<Longrightarrow>
     (i = k \<and> v = b \<and> (\<forall>x\<in>set xs. x \<le> b)) \<or>
     (n \<le> i \<and> i < n + length xs \<and> v = xs ! (i - n) \<and> b < v \<and>
        (\<forall>j < i - n. xs ! j < v) \<and> (\<forall>x\<in>set xs. x \<le> v))"
proof (induction xs arbitrary: k b n)
  case Nil
  then show ?case by simp
next
  case (Cons x xs)
  show ?case
  proof (cases "b < x")
    case True
    with Cons.prems have m: "max_loop snd (n, x) (enumerate (Suc n) xs) = (i, v)" by simp
    from Cons.IH[OF m] have
      "(i = n \<and> v = x \<and> (\<forall>y\<in>set xs. y \<le> x)) \<or>
       (Suc n \<le> i \<and> i < Suc n + length xs \<and> v = xs ! (i - Suc n) \<and> x < v \<and>
        (\<forall>j < i - Suc n. xs ! j < v) \<and> (\<forall>y\<in>set xs. y \<le> v))" by simp
    then show ?thesis
    proof
      assume "i = n \<and> v = x \<and> (\<forall>y\<in>set xs. y \<le> x)"
      with True show ?thesis by auto
    next
      assume a: "Suc n \<le> i \<and> i < Suc n + length xs \<and> v = xs ! (i - Suc n) \<and> x < v \<and>
        (\<forall>j < i - Suc n. xs ! j < v) \<and> (\<forall>y\<in>set xs. y \<le> v)"
      then have "i - n = Suc (i - Suc n)" by arith
      with a True show ?thesis
        by (auto simp: nth_Cons' less_Suc_eq_0_disj)
    qed
  next
    case False
    with Cons.prems have m: "max_loop snd (k, b) (enumerate (Suc n) xs) = (i, v)" by simp
    from Cons.prems have "k < Suc n" by simp
    from Cons.IH[OF m this] have
      "(i = k \<and> v = b \<and> (\<forall>y\<in>set xs. y \<le> b)) \<or>
       (Suc n \<le> i \<and> i < Suc n + length xs \<and> v = xs ! (i - Suc n) \<and> b < v \<and>
        (\<forall>j < i - Suc n. xs ! j < v) \<and> (\<forall>y\<in>set xs. y \<le> v))" .
    then show ?thesis
    proof
      assume "i = k \<and> v = b \<and> (\<forall>y\<in>set xs. y \<le> b)"
      with False show ?thesis by auto
    next
      assume a: "Suc n \<le> i \<and> i < Suc n + length xs \<and> v = xs ! (i - Suc n) \<and> b < v \<and>
        (\<forall>j < i - Suc n. xs ! j < v) \<and> (\<forall>y\<in>set xs. y \<le> v)"
      then have "i - n = Suc (i - Suc n)" by arith
      with a False show ?thesis
        by (auto simp: nth_Cons' less_Suc_eq_0_disj)
    qed
  qed
qed


lemma min_loop_enum:
  "min_loop snd (k, b) (enumerate n xs) = (i, v) \<Longrightarrow> k < n \<Longrightarrow>
     (i = k \<and> v = b \<and> (\<forall>x\<in>set xs. b \<le> x)) \<or>
     (n \<le> i \<and> i < n + length xs \<and> v = xs ! (i - n) \<and> v < b \<and>
        (\<forall>j < i - n. v < xs ! j) \<and> (\<forall>x\<in>set xs. v \<le> x))"
proof (induction xs arbitrary: k b n)
  case Nil
  then show ?case by simp
next
  case (Cons x xs)
  show ?case
  proof (cases "x < b")
    case True
    with Cons.prems have m: "min_loop snd (n, x) (enumerate (Suc n) xs) = (i, v)" by simp
    from Cons.IH[OF m] have
      "(i = n \<and> v = x \<and> (\<forall>y\<in>set xs. x \<le> y)) \<or>
       (Suc n \<le> i \<and> i < Suc n + length xs \<and> v = xs ! (i - Suc n) \<and> v < x \<and>
        (\<forall>j < i - Suc n. v < xs ! j) \<and> (\<forall>y\<in>set xs. v \<le> y))" by simp
    then show ?thesis
    proof
      assume "i = n \<and> v = x \<and> (\<forall>y\<in>set xs. x \<le> y)"
      with True show ?thesis by auto
    next
      assume a: "Suc n \<le> i \<and> i < Suc n + length xs \<and> v = xs ! (i - Suc n) \<and> v < x \<and>
        (\<forall>j < i - Suc n. v < xs ! j) \<and> (\<forall>y\<in>set xs. v \<le> y)"
      then have "i - n = Suc (i - Suc n)" by arith
      with a True show ?thesis
        by (auto simp: nth_Cons' less_Suc_eq_0_disj)
    qed
  next
    case False
    with Cons.prems have m: "min_loop snd (k, b) (enumerate (Suc n) xs) = (i, v)" by simp
    from Cons.prems have "k < Suc n" by simp
    from Cons.IH[OF m this] have
      "(i = k \<and> v = b \<and> (\<forall>y\<in>set xs. b \<le> y)) \<or>
       (Suc n \<le> i \<and> i < Suc n + length xs \<and> v = xs ! (i - Suc n) \<and> v < b \<and>
        (\<forall>j < i - Suc n. v < xs ! j) \<and> (\<forall>y\<in>set xs. v \<le> y))" .
    then show ?thesis
    proof
      assume "i = k \<and> v = b \<and> (\<forall>y\<in>set xs. b \<le> y)"
      with False show ?thesis by auto
    next
      assume a: "Suc n \<le> i \<and> i < Suc n + length xs \<and> v = xs ! (i - Suc n) \<and> v < b \<and>
        (\<forall>j < i - Suc n. v < xs ! j) \<and> (\<forall>y\<in>set xs. v \<le> y)"
      then have "i - n = Suc (i - Suc n)" by arith
      with a False show ?thesis
        by (auto simp: nth_Cons' less_Suc_eq_0_disj)
    qed
  qed
qed


lemma iargmax_first:
  assumes "it \<noteq> []"
  shows "\<exists>i. iargmax it = Inr i \<and> i < length it \<and> (\<forall>x\<in>set it. x \<le> it ! i) \<and>
             (\<forall>j<i. it ! j < it ! i)"
proof -
  from assms obtain x xs where it: "it = x # xs" by (cases it) auto
  obtain i v where m: "max_loop snd (0, x) (enumerate (Suc 0) xs) = (i, v)"
    by (cases "max_loop snd (0, x) (enumerate (Suc 0) xs)") auto
  have r: "iargmax it = Inr i"
    using m by (simp add: iargmax_def py_max_def it)
  from max_loop_enum[OF m] have
    "(i = 0 \<and> v = x \<and> (\<forall>y\<in>set xs. y \<le> x)) \<or>
     (Suc 0 \<le> i \<and> i < Suc 0 + length xs \<and> v = xs ! (i - Suc 0) \<and> x < v \<and>
        (\<forall>j < i - Suc 0. xs ! j < v) \<and> (\<forall>y\<in>set xs. y \<le> v))" by simp
  then show ?thesis
  proof
    assume "i = 0 \<and> v = x \<and> (\<forall>y\<in>set xs. y \<le> x)"
    with r it show ?thesis by auto
  next
    assume a: "Suc 0 \<le> i \<and> i < Suc 0 + length xs \<and> v = xs ! (i - Suc 0) \<and> x < v \<and>
        (\<forall>j < i - Suc 0. xs ! j < v) \<and> (\<forall>y\<in>set xs. y \<le> v)"
    then obtain i' where i': "i = Suc i'" by (cases i) auto
    with a r it show ?thesis
      by (auto simp: nth_Cons' less_Suc_eq_0_disj)
  qed
qed


lemma iargmin_first:
  assumes "it \<noteq> []"
  shows "\<exists>i. iargmin it = Inr i \<and> i < length it \<and> (\<forall>x\<in>set it. it ! i \<le> x) \<and>
             (\<forall>j<i. it ! i < it ! j)"
proof -
  from assms obtain x xs where it: "it = x # xs" by (cases it) auto
  obtain i v where m: "min_loop snd (0, x) (enumerate (Suc 0) xs) = (i, v)"
    by (cases "min_loop snd (0, x) (enumerate (Suc 0) xs)") auto
  have r: "iargmin it = Inr i"
    using m by (simp add: iargmin_def py_min_def it)
  from min_loop_enum[OF m] have
    "(i = 0 \<and> v = x \<and> (\<forall>y\<in>set xs. x \<le> y)) \<or>
     (Suc 0 \<le> i \<and> i < Suc 0 + length xs \<and> v = xs ! (i - Suc 0) \<and> v < x \<and>
        (\<forall>j < i - Suc 0. v < xs ! j) \<and> (\<forall>y\<in>set xs. v \<le> y))" by simp
  then show ?thesis
  proof
    assume "i = 0 \<and> v = x \<and> (\<forall>y\<in>set xs. x \<le> y)"
    with r it show ?thesis by auto
  next
    assume a: "Suc 0 \<le> i \<and> i < Suc 0 + length xs \<and> v = xs ! (i - Suc 0) \<and> v < x \<and>
        (\<forall>j < i - Suc 0. v < xs ! j) \<and> (\<forall>y\<in>set xs. v \<le> y)"
    then obtain i' where i': "i = Suc i'" by (cases i) auto
    with a r it show ?thesis
      by (auto simp: nth_Cons' less_Suc_eq_0_disj)
  qed
qed


text \<open>
  Claim C10: on a non-empty Python iterable that is neither a numpy array nor a masked
  array, \<open>argmax\<close> returns the smallest index at which the maximum occurs and
  \<open>argmin\<close> the smallest index at which the minimum occurs, whatever keywords are
  passed.
\<close>

theorem argmax_argmin_first_index:
  assumes "it \<noteq> []"
  shows "(\<exists>i. argmax dflt (PyIterable it) kw = Inr i \<and> i < length it \<and>
               (\<forall>x\<in>set it. x \<le> it ! i) \<and> (\<forall>j<i. it ! j < it ! i)) \<and>
         (\<exists>i. argmin dflt (PyIterable it) kw = Inr i \<and> i < length it \<and>
               (\<forall>x\<in>set it. it ! i \<le> x) \<and> (\<forall>j<i. it ! i < it ! j))"
  using iargmax_first[OF assms] iargmin_first[OF assms]
  by (simp add: argmax_def argmin_def)

theorem argmax_argmin_first_index_witness:
  "[1, 3, 3, 0, 0 :: int] \<noteq> [] \<and>
   argmax 0 (PyIterable [1, 3, 3, 0, 0 :: int]) no_kwargs = Inr 1 \<and>
   argmin 0 (PyIterable [1, 3, 3, 0, 0 :: int]) no_kwargs = Inr 3"
proof -
  have h: "[1, 3, 3, 0, 0 :: int] \<noteq> []" by simp
  have a: "argmax 0 (PyIterable [1, 3, 3, 0, 0 :: int]) no_kwargs = Inr 1"
    by (simp add: argmax_def iargmax_def py_max_def)
  have b: "argmin 0 (PyIterable [1, 3, 3, 0, 0 :: int]) no_kwargs = Inr 3"
    by (simp add: argmin_def iargmin_def py_min_def)
  from argmax_argmin_first_index[OF h, of 0 no_kwargs] a b h show ?thesis by simp
qed

lemma np_argsort_sorts:
  "sorted (map (\<lambda>i. a ! i) (np_argsort a)) \<and> set (np_argsort a) = {0..<length a} \<and>
   distinct (np_argsort a)"
  by (simp add: np_argsort_def)

lemma length_filled: "length (filled m v) = length m"
  by (simp add: filled_def)

text \<open>
  Claim C4: for a masked array and a fill value \<open>v\<close>, \<open>argsort(a, fill_value=v)\<close> is
  the index permutation that \<open>argsort\<close> returns for the plain array in which every
  masked entry is replaced by \<open>v\<close>; it is a permutation of the indices, and it sorts
  that array.
\<close>

theorem argsort_masked_fill_value:
  "argsort dflt (MaskedArray m) (no_kwargs\<lparr>fill_value_kw := Some v\<rparr>) =
     argsort dflt (NdArray (filled m v)) no_kwargs \<and>
   (\<exists>r. argsort dflt (MaskedArray m) (no_kwargs\<lparr>fill_value_kw := Some v\<rparr>) = Inr r \<and>
        sorted (map (\<lambda>i. filled m v ! i) r) \<and> set r = {0..<length m} \<and> distinct r)"
  using np_argsort_sorts[of "filled m v"]
  by (simp add: argsort_def np_ma_argsort_def no_kwargs_def length_filled)

text \<open>The masked array of the docstring, \<open>[0 4 -- -- 1 5 3 5]\<close>, with
  \<open>fill_value=1\<close>.\<close>

theorem argsort_masked_fill_value_witness:
  "argsort 0 (MaskedArray [(0, False), (4, False), (6, True), (2, True), (1, False), (5, False),
      (3, False), (5 :: int, False)]) (no_kwargs\<lparr>fill_value_kw := Some 1\<rparr>) =
     argsort 0 (NdArray [0, 4, 1, 1, 1, 5, 3, 5 :: int]) no_kwargs \<and>
   argsort 0 (NdArray [0, 4, 1, 1, 1, 5, 3, 5 :: int]) no_kwargs = Inr [0, 2, 3, 4, 6, 1, 5, 7]"
proof -
  have f: "filled [(0, False), (4, False), (6, True), (2, True), (1, False), (5, False),
      (3, False), (5 :: int, False)] 1 = [0, 4, 1, 1, 1, 5, 3, 5]"
    by (simp add: filled_def)
  have r: "argsort 0 (NdArray [0, 4, 1, 1, 1, 5, 3, 5 :: int]) no_kwargs = Inr [0, 2, 3, 4, 6, 1, 5, 7]"
    by (simp add: argsort_def no_kwargs_def np_argsort_def upt_rec)
  from argsort_masked_fill_value[of 0 "[(0, False), (4, False), (6, True), (2, True), (1, False),
      (5, False), (3, False), (5 :: int, False)]" 1] f r
  show ?thesis by simp
qed

section \<open>Properties of readhdf5 and readhdf4\<close>

text \<open>
  Claim C6 asks for a \<open>ValueError\<close> that names the missing variable. The source builds
  the message from the name \<open>fname\<close>, which is bound nowhere (the parameter is
  \<open>fName\<close>): with or without \<open>attributes=True\<close> the call raises \<open>NameError\<close>.
\<close>

theorem readhdf5_missing_variable_raises_NameError:
  "readhdf5 [''f.h5'' \<mapsto> \<lparr>fileattrs = [], datasets = [(''a'', Some [1 :: int], [(''units'', ''m'')])]\<rparr>]
     ''f.h5'' (hdf_defaults\<lparr>var := ''b''\<rparr>) = (Inl (NameError ''fname''), Closed) \<and>
   readhdf5 [''f.h5'' \<mapsto> \<lparr>fileattrs = [], datasets = [(''a'', Some [1 :: int], [(''units'', ''m'')])]\<rparr>]
     ''f.h5'' (hdf_defaults\<lparr>var := ''b'', attributes := True\<rparr>) = (Inl (NameError ''fname''), Closed)"
  by (simp add: readhdf5_def hdf_defaults_def raise_not_in_file_def lookup_name_def str_names_def)

text \<open>
  Claim C7 asks for \<open>IOError('Cannot open file: '+fName)\<close>. The handler is
  \<open>except HDF4Error\<close>, and \<open>HDF4Error\<close> is never imported: when the library fails to
  open the file, looking the name up raises \<open>NameError\<close>.
\<close>

theorem readhdf4_missing_file_raises_NameError:
  "readhdf4 True (Map.empty :: string \<rightharpoonup> (int list, string) container) ''missing.hdf'' hdf_defaults =
     (Inl (NameError ''HDF4Error''), NotOpened)"
  by (simp add: readhdf4_def bound_class_def readhdf4_names_def builtin_exceptions_def)


section \<open>Properties of sread\<close>

lemma rstrip_Nil: "rstrip [] = []"
  by (simp add: rstrip_def)

lemma first_line_Some_D:
  assumes "first_line sb c f = Some y"
  shows "\<not> sb \<or> list_ex (\<lambda>l. rstrip l \<noteq> [] \<and> \<not> in_comment c (rstrip l)) f"
proof (rule first_line.raw_induct[where P = "\<lambda>sb c f y.
    \<not> sb \<or> list_ex (\<lambda>l. rstrip l \<noteq> [] \<and> \<not> in_comment c (rstrip l)) f", OF _ assms], goal_cases)
  case (1 fl sb c f y)
  show ?case
  proof (cases sb)
    case False
    then show ?thesis by simp
  next
    case True
    show ?thesis
    proof (cases f)
      case Nil
      with 1(2) True have "fl True c [] = Some y"
        by (simp add: readline_def rstrip_Nil)
      from 1(1)[OF this] show ?thesis by simp
    next
      case (Cons l f')
      show ?thesis
      proof (cases "rstrip l \<noteq> [] \<and> \<not> in_comment c (rstrip l)")
        case True
        with Cons show ?thesis by simp
      next
        case False
        with 1(2) Cons \<open>sb\<close> have "fl True c f' = Some y"
          by (auto simp: readline_def Let_def split: if_splits)
        from 1(1)[OF this] Cons show ?thesis by simp
      qed
    qed
  qed
qed

lemma first_line_diverges:
  "sb \<Longrightarrow> list_all (\<lambda>l. rstrip l = [] \<or> in_comment c (rstrip l)) f \<Longrightarrow> first_line sb c f = None"
  using first_line_Some_D[of sb c f]
  by (cases "first_line sb c f") (auto simp: list_ex_iff list_all_iff)


text \<open>
  Claim C5 asks for an exception whenever \<open>nc\<close> and \<open>cname\<close> are both given. The
  test stands after the loop that looks for the first line of data, and with
  \<open>skip_blank=True\<close> that loop never ends on a file that holds nothing but the
  skipped lines: the call raises nothing and returns nothing.
\<close>

theorem sread_never_returns:
  "sread (sread_defaults\<lparr>nc := NcInt 1, cname := Some (CnameStr ''head1''), skip := 1, skip_blank := True\<rparr>)
     (Some [''head1 head2'']) = None"
  using first_line_diverges[of True None "[]"]
  by (simp add: sread_def sread_defaults_def read_head_def skip_lines_def)



lemma collect_map_Inr: "collect (map (\<lambda>x. Inr (g x)) xs) = Inr (map g xs)"
  by (induction xs) auto







text \<open>When the first line of data is found, the two options together do raise, and the
  file is closed.\<close>

lemma sread_nc_and_cname:
  assumes "nc args \<noteq> NcInt 0" and "cname args \<noteq> None" and "separator args \<noteq> Some []"
    and "first_line (skip_blank args) (comment args)
           (snd (read_head (skip args) (hskip args) (skip_lines (hskip args) f0))) = Some (s, f3)"
  shows "sread args (Some f0) =
           Some (Inl (ValueError ''nc and cname are mutually exclusive.''), Closed)"
proof -
  have "\<exists>sep res. sniff (separator args) s = Inr (sep, res)"
    using assms(3) by (cases "separator args") (simp_all add: sniff_def py_split_def Let_def)
  then obtain sep res where sn: "sniff (separator args) s = Inr (sep, res)"
    by blast
  show ?thesis
    using assms sn
    by (cases "read_head (skip args) (hskip args) (skip_lines (hskip args) f0)")
       (simp add: sread_def sread_body_def column_indices_def)
qed

text \<open>
  Claim C8 asks that the file is closed on every path. \<open>max(iinc)\<close> raises
  \<open>ValueError\<close> when no column is chosen, here because \<open>cname\<close> matches no header
  column, and no \<open>f.close()\<close> stands before it: the call ends with the file open.
\<close>

theorem sread_leaves_file_open:
  "sread (sread_defaults\<lparr>cname := Some (CnameSeq [''nope'']), skip := 1\<rparr>)
     (Some [''head1 head2'', ''1 2'']) =
   Some (Inl (ValueError ''max() arg is an empty sequence''), Opened)"
  by code_simp


























end
